theory Spec2Isabelle
  imports Main "HOL-Library.Sublist"
begin

section \<open>Transcript assembly and download of ConversationEnded.tsx\<close>

text \<open>
  A shallow embedding of \<^verbatim>\<open>src/components/ConversationEnded.tsx\<close>: the functions
  \<^verbatim>\<open>getTranscriptData\<close>, \<^verbatim>\<open>getNames\<close>, \<^verbatim>\<open>generateTranscript\<close>, and the two
  closures \<^verbatim>\<open>getMediaUrls\<close> and \<^verbatim>\<open>handleDownloadTranscript\<close> of the component.

  Conventions of the embedding:
  \<^item> an optional or nullable value is a \<open>T option\<close>, \<open>None\<close> being the absent value.
    The author of a \<^verbatim>\<open>Transcript\<close> is \<^verbatim>\<open>string | undefined\<close> (\<^verbatim>\<open>author?: string\<close>), and
    \<open>None\<close> is \<^verbatim>\<open>undefined\<close> there. \<^verbatim>\<open>attachedMedia\<close> may be \<^verbatim>\<open>null\<close> or
    \<^verbatim>\<open>undefined\<close>; the code only tests its truthiness, under which the two agree. The
    author of a \<^verbatim>\<open>Message\<close> may be \<^verbatim>\<open>null\<close>; the code only compares it with strings,
    and no comparison holds then;
  \<^item> an uncaught exception is the \<open>Inl\<close> branch of a sum;
  \<^item> the outcome of an awaited promise is a sum as well: \<open>Inl r\<close> is a rejection,
    \<open>r\<close> being the text that interpolating the rejection value into a template gives;
  \<^item> the effects of the component (log, blobs, network, download sink, loading flag) are
    events appended to a trace, in the order in which they happen;
  \<^item> names are those of the source. A property name that two types share, or that HOL
    has taken, carries its type as a prefix: \<open>message_author\<close>, \<open>media_size\<close>,
    \<open>url_filename\<close>.
\<close>

subsection \<open>Data model\<close>

text \<open>
  A \<^verbatim>\<open>Date\<close>, by the four observations the code makes of it: \<^verbatim>\<open>getHours()\<close>,
  \<^verbatim>\<open>getMinutes()\<close>, \<^verbatim>\<open>toLocaleString("default", { dateStyle: "long" })\<close> and
  \<^verbatim>\<open>toDateString()\<close>.
\<close>

record Date =
  getHours :: nat
  getMinutes :: nat
  toLocaleString_long :: string
  toDateString :: string

text \<open>
  \<^verbatim>\<open>Media\<close> of the conversations SDK: the three properties the code reads and the
  outcome of \<^verbatim>\<open>await media.getContentTemporaryUrl()\<close>.
\<close>

record Media =
  filename :: string
  contentType :: string
  media_size :: nat
  getContentTemporaryUrl :: "string + string"

text \<open>\<^verbatim>\<open>Message\<close> and \<^verbatim>\<open>User\<close> of the conversations SDK, by the properties the code reads.\<close>

record Message =
  message_author :: "string option"
  message_body :: string
  dateCreated :: Date
  message_attachedMedia :: "Media list option"

record User =
  identity :: string
  friendlyName :: string

text \<open>The interface \<^verbatim>\<open>Transcript\<close> (lines 19-24).\<close>

record Transcript =
  author :: "string option"
  body :: string
  timeStamp :: Date
  attachedMedia :: "Media list option"

text \<open>The only exception the modelled code lets escape: a property read on \<^verbatim>\<open>undefined\<close>.\<close>

datatype exn = TypeError

subsection \<open>getTranscriptData (lines 26-40)\<close>

text \<open>The object pushed for one message (lines 30-36).\<close>

definition transcriptEntry :: "User list \<Rightarrow> Message \<Rightarrow> Transcript" where
  "transcriptEntry users message =
     (let currentUser = find (\<lambda>user. Some (identity user) = message_author message) users
      in \<lparr> author = (if message_author message = Some ''Concierge''
                      then message_author message
                      else map_option friendlyName currentUser),
            body = message_body message,
            timeStamp = dateCreated message,
            attachedMedia = message_attachedMedia message \<rparr>)"

text \<open>The \<^verbatim>\<open>for\<close> loop of lines 29-37: each message pushes one object onto \<^verbatim>\<open>transcriptData\<close>.\<close>

fun getTranscriptData_loop :: "User list \<Rightarrow> Message list \<Rightarrow> Transcript list \<Rightarrow> Transcript list" where
  "getTranscriptData_loop users [] transcriptData = transcriptData"
| "getTranscriptData_loop users (message # messages) transcriptData =
     getTranscriptData_loop users messages (transcriptData @ [transcriptEntry users message])"

text \<open>
  The guard \<^verbatim>\<open>if (messages && users)\<close> tests truthiness: an array, empty or not, is truthy,
  \<^verbatim>\<open>undefined\<close> is not.
\<close>

definition getTranscriptData :: "Message list option \<Rightarrow> User list option \<Rightarrow> Transcript list" where
  "getTranscriptData messages users =
     (case messages of
        None \<Rightarrow> []
      | Some ms \<Rightarrow> (case users of None \<Rightarrow> [] | Some us \<Rightarrow> getTranscriptData_loop us ms []))"

subsection \<open>getNames (lines 42-47)\<close>

text \<open>
  \<^verbatim>\<open>transcriptData[0].author\<close> on an empty array reads a property of \<^verbatim>\<open>undefined\<close> and
  throws. The filter compares with \<^verbatim>\<open>!==\<close>; an absent author is a value like any
  other there.
\<close>

definition getNames :: "Transcript list \<Rightarrow> exn + (string option \<times> string option list)" where
  "getNames transcriptData =
     (let names = map author transcriptData
      in case transcriptData of
           [] \<Rightarrow> Inl TypeError
         | first # _ \<Rightarrow>
             (let customerName = author first;
                  agentNames = filter (\<lambda>name. name \<noteq> customerName \<and> name \<noteq> Some ''Concierge'') names
              in Inr (customerName, agentNames)))"

subsection \<open>generateTranscript (lines 49-71)\<close>

text \<open>
  Interpolation \<^verbatim>\<open>${x}\<close> of a \<^verbatim>\<open>string | undefined\<close> into a template: the absent value
  prints as the word \<^verbatim>\<open>undefined\<close>.
\<close>

definition interp :: "string option \<Rightarrow> string" where
  "interp x = (case x of None \<Rightarrow> ''undefined'' | Some s \<Rightarrow> s)"

text \<open>Interpolation \<^verbatim>\<open>${number}\<close> of a natural number: its decimal digits.\<close>

fun Number_toString :: "nat \<Rightarrow> string" where
  "Number_toString n =
     (if n < 10 then [''0123456789'' ! n]
      else Number_toString (n div 10) @ [''0123456789'' ! (n mod 10)])"

text \<open>Line 50.\<close>

definition doubleDigit :: "nat \<Rightarrow> string" where
  "doubleDigit number = (if number < 10 then ''0'' else []) @ Number_toString number"

text \<open>Lines 55-58: the title, to which \<^verbatim>\<open>forEach\<close> appends every element of \<^verbatim>\<open>agentNames\<close>.\<close>

definition conversationTitle :: "string option \<Rightarrow> string option list \<Rightarrow> string" where
  "conversationTitle customerName agentNames =
     (let title = ''Conversation with '' @ interp customerName
      in if length agentNames > 0
         then foldl (\<lambda>title name. title @ '' and '' @ interp name) title agentNames
         else title)"

text \<open>
  Lines 61-67, the text of one message. \<^verbatim>\<open>if (message.attachedMedia)\<close> is a truthiness
  test, which an empty array passes; \<^verbatim>\<open>message.attachedMedia[0].filename\<close> then reads a
  property of \<^verbatim>\<open>undefined\<close> and throws.
\<close>

definition messageText :: "string option \<Rightarrow> Transcript \<Rightarrow> exn + string" where
  "messageText customerName message =
     (let bulletPoint = (if author message = customerName then ''*'' else ''+'');
          line = bulletPoint @ '' '' @ doubleDigit (getHours (timeStamp message)) @ '':''
                   @ doubleDigit (getMinutes (timeStamp message)) @ ''  ''
                   @ interp (author message) @ '': '' @ body message
      in case attachedMedia message of
           None \<Rightarrow> Inr line
         | Some [] \<Rightarrow> Inl TypeError
         | Some (media # _) \<Rightarrow> Inr (line @ '' (** Attached file '' @ filename media @ '' **)''))"

text \<open>The \<^verbatim>\<open>for\<close> loop of lines 60-69.\<close>

fun generateTranscript_loop :: "string option \<Rightarrow> Transcript list \<Rightarrow> string \<Rightarrow> exn + string" where
  "generateTranscript_loop customerName [] transcript = Inr transcript"
| "generateTranscript_loop customerName (message # messages) transcript =
     (case messageText customerName message of
        Inl e \<Rightarrow> Inl e
      | Inr line \<Rightarrow>
          generateTranscript_loop customerName messages (transcript @ line @ ''\<newline>\<newline>''))"

subsection \<open>The environment of the component\<close>

text \<open>The object cast to \<^verbatim>\<open>File\<close> at lines 94-98.\<close>

record File =
  file_name :: string
  file_type :: string
  file_size :: nat

text \<open>A \<^verbatim>\<open>Blob\<close>: its parts and its MIME type.\<close>

datatype blob = Blob "string list" string

text \<open>A \<^verbatim>\<open>Response\<close> of \<^verbatim>\<open>fetch\<close>, with the outcome of \<^verbatim>\<open>response.blob()\<close>.\<close>

record Response =
  status :: nat
  statusText :: string
  response_blob :: "string + blob"

text \<open>An element \<^verbatim>\<open>{ url, filename }\<close> of \<^verbatim>\<open>mediaURLs\<close>.\<close>

record MediaURL =
  url :: string
  url_filename :: string

text \<open>
  A \<^verbatim>\<open>JSZip\<close> archive, by what the code puts into it: the folder made by
  \<^verbatim>\<open>zip.folder(fileName)\<close> and, in the order of the calls, the name and the (settled)
  data of every \<^verbatim>\<open>folder.file(name, data)\<close>. The library itself is outside the
  repository; the model stops at these calls. (\<^verbatim>\<open>zip.folder\<close> of a string gives the folder,
  so that \<^verbatim>\<open>folder?.file\<close> is always a call.)
\<close>

record JSZip =
  folder :: string
  files :: "(string \<times> (string + blob)) list"

text \<open>
  What the component calls and the repository does not define: \<^verbatim>\<open>generateDuration\<close>
  (imported from \<^verbatim>\<open>../utils/generateDuration\<close>), \<^verbatim>\<open>slugify\<close>,
  \<^verbatim>\<open>String.prototype.toLowerCase\<close>, \<^verbatim>\<open>URL.createObjectURL\<close>, \<^verbatim>\<open>fetch\<close> and
  \<^verbatim>\<open>zip.generateAsync\<close>. They are parameters: every theorem holds whatever they compute.
\<close>

record externals =
  generateDuration :: "Transcript list \<Rightarrow> string"
  slugify :: "string \<Rightarrow> string"
  toLowerCase :: "string \<Rightarrow> string"
  createObjectURL :: "File \<Rightarrow> string"
  fetch :: "string \<Rightarrow> string + Response"
  generateAsync :: "JSZip \<Rightarrow> string + blob"

text \<open>Lines 49-71.\<close>

definition generateTranscript :: "externals \<Rightarrow> Transcript list \<Rightarrow> exn + string" where
  "generateTranscript ext transcriptData =
     (case getNames transcriptData of
        Inl e \<Rightarrow> Inl e
      | Inr (customerName, agentNames) \<Rightarrow>
          (case transcriptData of
             [] \<Rightarrow> Inl TypeError
           | first # _ \<Rightarrow>
               (let conversationStartDate = toLocaleString_long (timeStamp first);
                    duration = generateDuration ext transcriptData;
                    title = conversationTitle customerName agentNames;
                    transcript = title @ ''\<newline>\<newline>Date: '' @ conversationStartDate
                                   @ ''\<newline>Duration: '' @ duration @ ''\<newline>\<newline>''
                in generateTranscript_loop customerName transcriptData transcript)))"

subsection \<open>The effects of the component\<close>

datatype event =
    SetDownloadingTranscript bool
  | NewBlob blob
  | GetContentTemporaryUrl Media
  | CreateObjectURL File
  | LogError string
  | Fetch string
  | GenerateAsync JSZip
  | SaveAs blob string

subsection \<open>getMediaUrls (lines 88-107)\<close>

text \<open>
  The condition of \<^verbatim>\<open>media ? ... : ...\<close> (line 99) is the truthiness of an element of a
  \<^verbatim>\<open>Media[]\<close>: an object, and every object is truthy.
\<close>

definition truthy :: "Media \<Rightarrow> bool" where
  "truthy media = True"

text \<open>
  The body of the \<^verbatim>\<open>try\<close> up to the \<^verbatim>\<open>await\<close> (lines 94-99): the events it causes and
  the URL, or the rejection that the \<^verbatim>\<open>catch\<close> receives.
\<close>

definition resolveUrl :: "externals \<Rightarrow> Media \<Rightarrow> event list \<times> (string + string)" where
  "resolveUrl ext media =
     (let file = \<lparr> file_name = filename media, file_type = contentType media,
                    file_size = media_size media \<rparr>
      in if truthy media
         then ([GetContentTemporaryUrl media], getContentTemporaryUrl media)
         else ([CreateObjectURL file], Inr (createObjectURL ext file)))"

text \<open>
  The inner loop (lines 92-104) over the attachments of one message, on the array
  \<^verbatim>\<open>mediaURLs\<close> and the trace: a URL is pushed with the file name, a rejection is caught
  and logged, and the loop goes on in both cases.
\<close>

fun getMediaUrls_media :: "externals \<Rightarrow> Media list \<Rightarrow> MediaURL list \<times> event list \<Rightarrow> MediaURL list \<times> event list" where
  "getMediaUrls_media ext [] st = st"
| "getMediaUrls_media ext (media # rest) (mediaURLs, trace) =
     (case resolveUrl ext media of
        (evs, Inr u) \<Rightarrow>
          getMediaUrls_media ext rest
            (mediaURLs @ [\<lparr> url = u, url_filename = filename media \<rparr>], trace @ evs)
      | (evs, Inl e) \<Rightarrow>
          getMediaUrls_media ext rest
            (mediaURLs, trace @ evs @ [LogError (''Failed downloading message attachment: '' @ e)]))"

text \<open>The outer loop (lines 91-105); \<^verbatim>\<open>message.attachedMedia || []\<close> is the inner loop's array.\<close>

fun getMediaUrls_messages :: "externals \<Rightarrow> Message list \<Rightarrow> MediaURL list \<times> event list \<Rightarrow> MediaURL list \<times> event list" where
  "getMediaUrls_messages ext [] st = st"
| "getMediaUrls_messages ext (message # rest) st =
     getMediaUrls_messages ext rest
       (getMediaUrls_media ext
          (case message_attachedMedia message of None \<Rightarrow> [] | Some media \<Rightarrow> media) st)"

text \<open>
  The closure reads \<^verbatim>\<open>messages\<close> of the component: here an argument. It returns
  \<^verbatim>\<open>mediaURLs\<close> and the events it caused. Nothing in it throws outside the \<^verbatim>\<open>try\<close>.
\<close>

definition getMediaUrls :: "externals \<Rightarrow> Message list option \<Rightarrow> MediaURL list \<times> event list" where
  "getMediaUrls ext messages =
     (let mediaMessages = map_option (filter (\<lambda>message. message_attachedMedia message \<noteq> None)) messages
      in getMediaUrls_messages ext (case mediaMessages of None \<Rightarrow> [] | Some ms \<Rightarrow> ms) ([], []))"

subsection \<open>handleDownloadTranscript (lines 109-143)\<close>

text \<open>Lines 116-122: the file name.\<close>

definition downloadFileName :: "externals \<Rightarrow> Transcript list \<Rightarrow> exn + string" where
  "downloadFileName ext transcriptData =
     (case getNames transcriptData of
        Inl e \<Rightarrow> Inl e
      | Inr (customerName, agentNames) \<Rightarrow>
          (let fileName = ''chat with '' @ interp customerName;
               fileName = (if length agentNames > 0
                           then foldl (\<lambda>fileName name. fileName @ '' and '' @ interp name) fileName agentNames
                           else fileName)
           in case transcriptData of
                [] \<Rightarrow> Inl TypeError
              | first # _ \<Rightarrow>
                  (let fileName = fileName @ ''-'' @ toDateString (timeStamp first)
                   in Inr (toLowerCase ext (slugify ext fileName)))))"

text \<open>
  \<^verbatim>\<open>`${e}`\<close> for \<^verbatim>\<open>e = new Error(message)\<close>: \<^verbatim>\<open>Error.prototype.toString\<close> leaves out the
  colon when the message is empty.
\<close>

definition Error_toString :: "string \<Rightarrow> string" where
  "Error_toString message = (if message = [] then ''Error'' else ''Error: '' @ message)"

text \<open>Lines 129-132: how \<^verbatim>\<open>blobPromise\<close> settles.\<close>

definition blobPromise :: "externals \<Rightarrow> string \<Rightarrow> string + blob" where
  "blobPromise ext u =
     (case fetch ext u of
        Inl e \<Rightarrow> Inl e
      | Inr response \<Rightarrow>
          if status response = 200 then response_blob response
          else Inl (Error_toString (statusText response)))"

text \<open>Lines 125-134: the archive on which \<^verbatim>\<open>generateAsync\<close> is called.\<close>

definition buildZip :: "externals \<Rightarrow> string \<Rightarrow> blob \<Rightarrow> MediaURL list \<Rightarrow> JSZip" where
  "buildZip ext fileName transcriptBlob mediaURLs =
     (let zip = \<lparr> folder = fileName, files = [] \<rparr>;
          zip = zip \<lparr> files := files zip @ [(fileName @ ''.txt'', Inr transcriptBlob)] \<rparr>
      in foldl (\<lambda>zip mediaURL.
                  zip \<lparr> files := files zip @ [(url_filename mediaURL, blobPromise ext (url mediaURL))] \<rparr>)
           zip mediaURLs)"

text \<open>
  The handler: the trace of its events and how its promise settles (\<open>Inl\<close>: rejected
  with the exception). The chain on \<^verbatim>\<open>zip.generateAsync\<close> is not awaited, so its
  \<^verbatim>\<open>saveAs\<close> or \<^verbatim>\<open>log.error\<close> comes after \<^verbatim>\<open>setdownloadingTranscript(false)\<close>.
  \<^verbatim>\<open>new Blob\<close>, \<^verbatim>\<open>saveAs\<close>, \<^verbatim>\<open>log.error\<close> and the state setter are taken to return
  normally.
\<close>

definition handleDownloadTranscript :: "externals \<Rightarrow> Message list option \<Rightarrow> User list option \<Rightarrow> event list \<times> (exn + unit)" where
  "handleDownloadTranscript ext messages users =
     (let trace = [SetDownloadingTranscript True];
          transcriptData = getTranscriptData messages users
      in case generateTranscript ext transcriptData of
           Inl e \<Rightarrow> (trace, Inl e)
         | Inr transcript \<Rightarrow>
             (let transcriptBlob = Blob [transcript] ''text/plain'';
                  trace = trace @ [NewBlob transcriptBlob];
                  (mediaURLs, evs) = getMediaUrls ext messages;
                  trace = trace @ evs
              in case downloadFileName ext transcriptData of
                   Inl e \<Rightarrow> (trace, Inl e)
                 | Inr fileName \<Rightarrow>
                     if length mediaURLs > 0
                     then (let zip = buildZip ext fileName transcriptBlob mediaURLs;
                               trace = trace @ map (\<lambda>mediaURL. Fetch (url mediaURL)) mediaURLs
                                         @ [GenerateAsync zip, SetDownloadingTranscript False]
                           in case generateAsync ext zip of
                                Inr archive \<Rightarrow> (trace @ [SaveAs archive (fileName @ ''.zip'')], Inr ())
                              | Inl e \<Rightarrow>
                                  (trace @ [LogError (''Failed zipping message attachments: '' @ e)], Inr ()))
                     else (trace @ [SaveAs transcriptBlob (fileName @ ''.txt''),
                                    SetDownloadingTranscript False], Inr ())))"

subsection \<open>Observations of a run\<close>

text \<open>
  Not code of the component: the vocabulary in which the properties below are stated.
  The attachments of all messages, in the order in which \<^verbatim>\<open>getMediaUrls\<close> visits them.
\<close>

definition attachments :: "Message list option \<Rightarrow> Media list" where
  "attachments messages =
     concat (map (\<lambda>message. case message_attachedMedia message of None \<Rightarrow> [] | Some media \<Rightarrow> media)
               (case messages of None \<Rightarrow> [] | Some ms \<Rightarrow> ms))"

text \<open>What one attachment leaves in \<^verbatim>\<open>mediaURLs\<close>, and in the log, by how its URL resolves.\<close>

definition resolved :: "Media \<Rightarrow> MediaURL list" where
  "resolved media =
     (case getContentTemporaryUrl media of
        Inl e \<Rightarrow> []
      | Inr u \<Rightarrow> [\<lparr> url = u, url_filename = filename media \<rparr>])"

definition resolutionFailure :: "Media \<Rightarrow> string list" where
  "resolutionFailure media =
     (case getContentTemporaryUrl media of
        Inl e \<Rightarrow> [''Failed downloading message attachment: '' @ e]
      | Inr u \<Rightarrow> [])"

text \<open>Projections of a trace: one per kind of effect.\<close>

definition savedArtifacts :: "event list \<Rightarrow> (blob \<times> string) list" where
  "savedArtifacts trace = concat (map (\<lambda>ev. case ev of SaveAs b n \<Rightarrow> [(b, n)] | _ \<Rightarrow> []) trace)"

definition loggedErrors :: "event list \<Rightarrow> string list" where
  "loggedErrors trace = concat (map (\<lambda>ev. case ev of LogError m \<Rightarrow> [m] | _ \<Rightarrow> []) trace)"

definition archives :: "event list \<Rightarrow> JSZip list" where
  "archives trace = concat (map (\<lambda>ev. case ev of GenerateAsync z \<Rightarrow> [z] | _ \<Rightarrow> []) trace)"

definition createdBlobs :: "event list \<Rightarrow> blob list" where
  "createdBlobs trace = concat (map (\<lambda>ev. case ev of NewBlob b \<Rightarrow> [b] | _ \<Rightarrow> []) trace)"

definition resolutions :: "event list \<Rightarrow> Media list" where
  "resolutions trace = concat (map (\<lambda>ev. case ev of GetContentTemporaryUrl m \<Rightarrow> [m] | _ \<Rightarrow> []) trace)"

definition objectURLs :: "event list \<Rightarrow> File list" where
  "objectURLs trace = concat (map (\<lambda>ev. case ev of CreateObjectURL f \<Rightarrow> [f] | _ \<Rightarrow> []) trace)"

text \<open>
  The title as the specification words it, for comparison with the code: after the
  customer, one \<^verbatim>\<open>" and {agent}"\<close> per distinct agent name (a present name that is neither
  the customer's nor \<^verbatim>\<open>"Concierge"\<close>), in the order of first occurrence.
\<close>

definition firstSeen :: "'a list \<Rightarrow> 'a list" where
  "firstSeen xs = rev (remdups (rev xs))"

definition title_spec :: "Transcript list \<Rightarrow> string option" where
  "title_spec entries =
     (case entries of
        [] \<Rightarrow> None
      | first # _ \<Rightarrow>
          (let customer = author first;
               present = concat (map (\<lambda>entry. case author entry of None \<Rightarrow> [] | Some n \<Rightarrow> [n]) entries);
               agents = firstSeen (filter (\<lambda>n. Some n \<noteq> customer \<and> n \<noteq> ''Concierge'') present)
           in Some (''Conversation with '' @ interp customer
                      @ concat (map (\<lambda>agent. '' and '' @ agent) agents))))"

subsection \<open>Example data\<close>

definition ex_date :: Date where
  "ex_date = \<lparr> getHours = 9, getMinutes = 5, toLocaleString_long = ''January 2, 2024'',
               toDateString = ''Tue Jan 02 2024'' \<rparr>"

definition ex_archive :: blob where
  "ex_archive = Blob [''PK''] ''application/zip''"

definition ex_ext :: externals where
  "ex_ext = \<lparr> generateDuration = (\<lambda>transcriptData. ''1 minute''),
              slugify = map (\<lambda>c. if c = CHR '' '' then CHR ''-'' else c),
              toLowerCase = map (\<lambda>c. if c = CHR ''A'' then CHR ''a''
                                      else if c = CHR ''T'' then CHR ''t''
                                      else if c = CHR ''J'' then CHR ''j'' else c),
              createObjectURL = (\<lambda>file. ''blob:local''),
              fetch = (\<lambda>u. Inr \<lparr> status = 200, statusText = ''OK'',
                                 response_blob = Inr (Blob [u] ''image/png'') \<rparr>),
              generateAsync = (\<lambda>zip. Inr ex_archive) \<rparr>"

text \<open>The same environment, with an archive generation that fails.\<close>

definition ex_ext_nozip :: externals where
  "ex_ext_nozip = ex_ext \<lparr> generateAsync := (\<lambda>zip. Inl ''Error: compression'') \<rparr>"

definition ex_alice :: Transcript where
  "ex_alice = \<lparr> author = Some ''Alice'', body = ''hi'', timeStamp = ex_date, attachedMedia = None \<rparr>"

definition ex_bob :: Transcript where
  "ex_bob = \<lparr> author = Some ''Bob'', body = ''hello'', timeStamp = ex_date, attachedMedia = None \<rparr>"

text \<open>
  An entry without author: what extraction makes of a message whose author matches no
  participant.
\<close>

definition ex_unknown :: Transcript where
  "ex_unknown = \<lparr> author = None, body = ''hi'', timeStamp = ex_date, attachedMedia = None \<rparr>"

definition ex_a_png :: Media where
  "ex_a_png = \<lparr> filename = ''a.png'', contentType = ''image/png'', media_size = 10,
                getContentTemporaryUrl = Inr ''https://media/a'' \<rparr>"

definition ex_b_png :: Media where
  "ex_b_png = \<lparr> filename = ''b.png'', contentType = ''image/png'', media_size = 20,
                getContentTemporaryUrl = Inl ''Error: expired'' \<rparr>"

definition ex_users :: "User list" where
  "ex_users = [\<lparr> identity = ''u1'', friendlyName = ''Alice'' \<rparr>,
               \<lparr> identity = ''u2'', friendlyName = ''Bob'' \<rparr>]"

definition ex_message :: "Media list option \<Rightarrow> Message" where
  "ex_message media = \<lparr> message_author = Some ''u1'', message_body = ''hi'', dateCreated = ex_date,
                        message_attachedMedia = media \<rparr>"

section \<open>Properties\<close>

subsection \<open>Auxiliary facts\<close>

declare Number_toString.simps [simp del]

lemma getNames_Nil: "getNames [] = Inl TypeError"
  by (simp add: getNames_def)

lemma getNames_Cons:
  "getNames (first # rest) =
     Inr (author first,
          filter (\<lambda>name. name \<noteq> author first \<and> name \<noteq> Some ''Concierge'') (map author rest))"
  by (simp add: getNames_def Let_def)

lemma foldl_and_names:
  "foldl (\<lambda>acc name. acc @ f name) start names = start @ concat (map f names)"
  by (induction names arbitrary: start) simp_all

lemma conversationTitle_concat:
  "conversationTitle customerName agentNames =
     ''Conversation with '' @ interp customerName
       @ concat (map (\<lambda>name. '' and '' @ interp name) agentNames)"
  by (simp add: conversationTitle_def Let_def foldl_and_names)

lemma messageText_Inl_iff:
  "messageText customerName message = Inl e \<longleftrightarrow> attachedMedia message = Some []"
  by (cases e) (simp add: messageText_def Let_def split: option.splits list.splits)

lemma loop_prefix:
  "generateTranscript_loop customerName entries acc = Inr out \<Longrightarrow> prefix acc out"
proof (induction entries arbitrary: acc)
  case Nil
  then show ?case by simp
next
  case (Cons entry entries)
  then obtain line where "messageText customerName entry = Inr line"
    and "generateTranscript_loop customerName entries (acc @ line @ ''\<newline>\<newline>'') = Inr out"
    by (auto split: sum.splits)
  with Cons.IH have "prefix (acc @ line @ ''\<newline>\<newline>'') out" by blast
  then show ?case by (rule append_prefixD)
qed

lemma loop_contains_line:
  assumes "generateTranscript_loop customerName entries acc = Inr out"
      and "message \<in> set entries"
      and "messageText customerName message = Inr line"
  shows "sublist (line @ ''\<newline>\<newline>'') out"
  using assms
proof (induction entries arbitrary: acc)
  case Nil
  then show ?case by simp
next
  case (Cons entry entries)
  from Cons.prems(1) obtain l
    where l: "messageText customerName entry = Inr l"
      and rest: "generateTranscript_loop customerName entries (acc @ l @ ''\<newline>\<newline>'') = Inr out"
    by (auto split: sum.splits)
  consider (here) "message = entry" | (later) "message \<noteq> entry" by blast
  then show ?case
  proof cases
    case here
    with l Cons.prems(3) have "l = line" by simp
    with rest have "prefix (acc @ line @ ''\<newline>\<newline>'') out" by (simp add: loop_prefix)
    then obtain zs where "out = acc @ (line @ ''\<newline>\<newline>'') @ zs"
      by (auto simp add: prefix_def)
    then show ?thesis by (simp only: sublist_appendI)
  next
    case later
    with Cons.prems(2) have "message \<in> set entries" by simp
    with rest show ?thesis using Cons.prems(3) by (rule Cons.IH)
  qed
qed

lemma loop_Inl_iff:
  "generateTranscript_loop customerName entries acc = Inl e
     \<longleftrightarrow> (\<exists>entry\<in>set entries. attachedMedia entry = Some [])"
proof (induction entries arbitrary: acc)
  case Nil
  show ?case by simp
next
  case (Cons entry entries)
  obtain r where r: "messageText customerName entry = r" by simp
  show ?case
  proof (cases r)
    case (Inl e')
    with r have "attachedMedia entry = Some []" by (simp add: messageText_Inl_iff)
    with Inl r show ?thesis by (cases e, cases e') simp
  next
    case (Inr line)
    with r have "attachedMedia entry \<noteq> Some []"
      using messageText_Inl_iff [of customerName entry TypeError] by auto
    with Inr r Cons.IH show ?thesis by simp
  qed
qed

lemma generateTranscript_Nil: "generateTranscript ext [] = Inl TypeError"
  by (simp add: generateTranscript_def getNames_Nil)

lemma generateTranscript_Cons:
  "generateTranscript ext (first # rest) =
     generateTranscript_loop (author first) (first # rest)
       (conversationTitle (author first)
          (filter (\<lambda>name. name \<noteq> author first \<and> name \<noteq> Some ''Concierge'') (map author rest))
        @ ''\<newline>\<newline>Date: '' @ toLocaleString_long (timeStamp first)
        @ ''\<newline>Duration: '' @ generateDuration ext (first # rest) @ ''\<newline>\<newline>'')"
  by (simp add: generateTranscript_def getNames_Cons Let_def)

lemma generateTranscript_Inl_iff:
  "generateTranscript ext entries = Inl e
     \<longleftrightarrow> entries = [] \<or> (\<exists>entry\<in>set entries. attachedMedia entry = Some [])"
proof (cases entries)
  case Nil
  then show ?thesis by (cases e) (simp add: generateTranscript_Nil)
next
  case (Cons first rest)
  then show ?thesis
    by (simp only: generateTranscript_Cons loop_Inl_iff) simp
qed

lemma downloadFileName_Cons:
  "\<exists>fileName. downloadFileName ext (first # rest) = Inr fileName"
  by (simp add: downloadFileName_def getNames_Cons Let_def)

lemma rendered_has_fileName:
  assumes "generateTranscript ext entries = Inr transcript"
  shows "\<exists>fileName. downloadFileName ext entries = Inr fileName"
proof (cases entries)
  case Nil
  with assms show ?thesis by (simp add: generateTranscript_Nil)
next
  case (Cons first rest)
  then show ?thesis by (simp add: downloadFileName_Cons)
qed

text \<open>What \<^verbatim>\<open>getMediaUrls\<close> returns and causes, attachment by attachment.\<close>

lemma getMediaUrls_media_eq:
  "getMediaUrls_media ext media (mediaURLs, trace) =
     (mediaURLs @ concat (map resolved media),
      trace @ concat (map (\<lambda>m. GetContentTemporaryUrl m # map LogError (resolutionFailure m)) media))"
  by (induction media arbitrary: mediaURLs trace)
     (simp_all add: resolveUrl_def truthy_def resolved_def resolutionFailure_def split: sum.splits)

lemma getMediaUrls_messages_eq:
  "getMediaUrls_messages ext ms (mediaURLs, trace) =
     (mediaURLs @ concat (map resolved (attachments (Some ms))),
      trace @ concat (map (\<lambda>m. GetContentTemporaryUrl m # map LogError (resolutionFailure m))
                        (attachments (Some ms))))"
  by (induction ms arbitrary: mediaURLs trace)
     (simp_all add: attachments_def getMediaUrls_media_eq)

lemma attachments_filter:
  "attachments (Some (filter (\<lambda>message. message_attachedMedia message \<noteq> None) ms)) = attachments (Some ms)"
  by (induction ms) (auto simp add: attachments_def)

lemma getMediaUrls_eq:
  "getMediaUrls ext messages =
     (concat (map resolved (attachments messages)),
      concat (map (\<lambda>m. GetContentTemporaryUrl m # map LogError (resolutionFailure m))
                (attachments messages)))"
proof (cases messages)
  case None
  then show ?thesis by (simp add: getMediaUrls_def attachments_def)
next
  case (Some ms)
  then show ?thesis
    using attachments_filter [of ms]
    by (simp add: getMediaUrls_def getMediaUrls_messages_eq)
qed

lemma trace_loggedErrors:
  "loggedErrors (concat (map (\<lambda>m. GetContentTemporaryUrl m # map LogError (resolutionFailure m)) media))
     = concat (map resolutionFailure media)"
  by (induction media) (simp_all add: loggedErrors_def resolutionFailure_def split: sum.splits)

lemma trace_resolutions:
  "resolutions (concat (map (\<lambda>m. GetContentTemporaryUrl m # map LogError (resolutionFailure m)) media))
     = media"
  by (induction media) (simp_all add: resolutions_def resolutionFailure_def split: sum.splits)

lemma trace_objectURLs:
  "objectURLs (concat (map (\<lambda>m. GetContentTemporaryUrl m # map LogError (resolutionFailure m)) media))
     = []"
  by (induction media) (simp_all add: objectURLs_def resolutionFailure_def split: sum.splits)

lemma trace_savedArtifacts:
  "savedArtifacts (concat (map (\<lambda>m. GetContentTemporaryUrl m # map LogError (resolutionFailure m)) media))
     = []"
  by (induction media) (simp_all add: savedArtifacts_def resolutionFailure_def split: sum.splits)

lemma trace_archives:
  "archives (concat (map (\<lambda>m. GetContentTemporaryUrl m # map LogError (resolutionFailure m)) media))
     = []"
  by (induction media) (simp_all add: archives_def resolutionFailure_def split: sum.splits)

lemma buildZip_files:
  "buildZip ext fileName transcriptBlob mediaURLs =
     \<lparr> folder = fileName,
       files = (fileName @ ''.txt'', Inr transcriptBlob)
               # map (\<lambda>mediaURL. (url_filename mediaURL, blobPromise ext (url mediaURL))) mediaURLs \<rparr>"
proof -
  have "foldl (\<lambda>zip mediaURL. zip \<lparr> files := files zip @ [g mediaURL] \<rparr>) z mediaURLs
          = z \<lparr> files := files z @ map g mediaURLs \<rparr>" for g and z :: JSZip
    by (induction mediaURLs arbitrary: z) simp_all
  then show ?thesis by (simp add: buildZip_def Let_def)
qed


text \<open>The projections of a trace, and the handler once the transcript is rendered.\<close>

lemma savedArtifacts_simps:
  "savedArtifacts [] = []"
  "savedArtifacts (ev # trace) = (case ev of SaveAs b n \<Rightarrow> [(b, n)] | _ \<Rightarrow> []) @ savedArtifacts trace"
  "savedArtifacts (trace @ trace') = savedArtifacts trace @ savedArtifacts trace'"
  "savedArtifacts (map (\<lambda>mediaURL. Fetch (url mediaURL)) mediaURLs) = []"
  by (induction mediaURLs) (simp_all add: savedArtifacts_def)

lemma archives_simps:
  "archives [] = []"
  "archives (ev # trace) = (case ev of GenerateAsync z \<Rightarrow> [z] | _ \<Rightarrow> []) @ archives trace"
  "archives (trace @ trace') = archives trace @ archives trace'"
  "archives (map (\<lambda>mediaURL. Fetch (url mediaURL)) mediaURLs) = []"
  by (induction mediaURLs) (simp_all add: archives_def)

lemma loggedErrors_simps:
  "loggedErrors [] = []"
  "loggedErrors (ev # trace) = (case ev of LogError m \<Rightarrow> [m] | _ \<Rightarrow> []) @ loggedErrors trace"
  "loggedErrors (trace @ trace') = loggedErrors trace @ loggedErrors trace'"
  "loggedErrors (map (\<lambda>mediaURL. Fetch (url mediaURL)) mediaURLs) = []"
  by (induction mediaURLs) (simp_all add: loggedErrors_def)

lemma getMediaUrls_saves_nothing:
  "savedArtifacts (snd (getMediaUrls ext messages)) = []"
  "archives (snd (getMediaUrls ext messages)) = []"
  by (simp_all add: getMediaUrls_eq trace_savedArtifacts trace_archives)

lemma handle_rendered:
  assumes "generateTranscript ext (getTranscriptData messages users) = Inr transcript"
      and "downloadFileName ext (getTranscriptData messages users) = Inr fileName"
  shows "handleDownloadTranscript ext messages users =
     (let transcriptBlob = Blob [transcript] ''text/plain'';
          mediaURLs = fst (getMediaUrls ext messages);
          zip = buildZip ext fileName transcriptBlob mediaURLs;
          trace = [SetDownloadingTranscript True, NewBlob transcriptBlob]
                  @ snd (getMediaUrls ext messages)
      in if mediaURLs \<noteq> []
         then (trace @ map (\<lambda>mediaURL. Fetch (url mediaURL)) mediaURLs
                 @ [GenerateAsync zip, SetDownloadingTranscript False]
                 @ [case generateAsync ext zip of
                      Inr archive \<Rightarrow> SaveAs archive (fileName @ ''.zip'')
                    | Inl e \<Rightarrow> LogError (''Failed zipping message attachments: '' @ e)],
               Inr ())
         else (trace @ [SaveAs transcriptBlob (fileName @ ''.txt''), SetDownloadingTranscript False],
               Inr ()))"
  by (simp add: handleDownloadTranscript_def Let_def assms split: sum.splits prod.splits)

lemma resolved_Nil_iff:
  "concat (map resolved media) = [] \<longleftrightarrow> (\<forall>m\<in>set media. isl (getContentTemporaryUrl m))"
  by (induction media) (auto simp add: resolved_def split: sum.splits)

subsection \<open>Extraction (getTranscriptData)\<close>

lemma getTranscriptData_loop_map:
  "getTranscriptData_loop users messages acc = acc @ map (transcriptEntry users) messages"
  by (induction messages arbitrary: acc) simp_all

text \<open>
  C3, as stated, fails. The guard of \<^verbatim>\<open>getTranscriptData\<close> tests that both arrays are
  there, not that they have elements: with one message and an empty (but present)
  participant list, the result has one entry, whose author is absent.
\<close>

theorem empty_participants_counterexample:
  "getTranscriptData (Some [ex_message None]) (Some []) =
     [\<lparr> author = None, body = ''hi'', timeStamp = ex_date, attachedMedia = None \<rparr>]
   \<and> getTranscriptData (Some [ex_message None]) (Some []) \<noteq> []"
  by (simp add: getTranscriptData_def transcriptEntry_def ex_message_def)

text \<open>
  C3, amended. Extraction returns the empty sequence exactly when the message sequence
  is absent, the participant sequence is absent, or the message sequence is empty. (The
  function has no failing branch: its result is a plain list.) An empty participant
  sequence alone does not empty the result.
\<close>

theorem getTranscriptData_empty_iff:
  "getTranscriptData messages users = [] \<longleftrightarrow> messages = None \<or> users = None \<or> messages = Some []"
proof (cases messages)
  case None
  then show ?thesis by (simp add: getTranscriptData_def)
next
  case present: (Some ms)
  show ?thesis
  proof (cases users)
    case None
    with present show ?thesis by (simp add: getTranscriptData_def)
  next
    case (Some us)
    with present have "getTranscriptData messages users = map (transcriptEntry us) ms"
      by (simp add: getTranscriptData_def getTranscriptData_loop_map)
    with present Some show ?thesis by simp
  qed
qed

text \<open>
  C7. With a participant list, extraction yields one transcript entry per message, in the
  order of the messages: the result has the length of the input, and its i-th entry is
  the object built from the i-th message, with that message's body, creation date and
  attachments.
\<close>

theorem getTranscriptData_order_count:
  "length (getTranscriptData (Some messages) (Some users)) = length messages
   \<and> getTranscriptData (Some messages) (Some users) = map (transcriptEntry users) messages
   \<and> map body (getTranscriptData (Some messages) (Some users)) = map message_body messages
   \<and> map timeStamp (getTranscriptData (Some messages) (Some users)) = map dateCreated messages
   \<and> map attachedMedia (getTranscriptData (Some messages) (Some users))
       = map message_attachedMedia messages"
proof -
  have run: "getTranscriptData (Some messages) (Some users) = map (transcriptEntry users) messages"
    by (simp add: getTranscriptData_def getTranscriptData_loop_map)
  have "map body (map (transcriptEntry users) messages) = map message_body messages"
    and "map timeStamp (map (transcriptEntry users) messages) = map dateCreated messages"
    and "map attachedMedia (map (transcriptEntry users) messages) = map message_attachedMedia messages"
    by (simp_all add: transcriptEntry_def Let_def)
  with run show ?thesis by simp
qed

subsection \<open>Rendering (getNames, generateTranscript)\<close>

text \<open>
  C1, as stated, fails, in two ways. \<^verbatim>\<open>getNames\<close> filters the authors of all entries and
  removes no duplicate: for entries authored Alice, Bob, Bob the title names Bob twice,
  where the title of the specification names him once. And the filter keeps an absent
  author when the customer has a name: for a customer Alice followed by a message whose
  author matches no participant (extraction gives it no author), the title goes on with
  \<^verbatim>\<open> and undefined\<close>, where the title of the specification ends after Alice.
\<close>

theorem title_repeats_agent_counterexample:
  "generateTranscript ex_ext [ex_alice, ex_bob, ex_bob] =
     Inr ''Conversation with Alice and Bob and Bob\<newline>\<newline>Date: January 2, 2024\<newline>Duration: 1 minute\<newline>\<newline>* 09:05  Alice: hi\<newline>\<newline>+ 09:05  Bob: hello\<newline>\<newline>+ 09:05  Bob: hello\<newline>\<newline>''
   \<and> title_spec [ex_alice, ex_bob, ex_bob] = Some ''Conversation with Alice and Bob''
   \<and> \<not> prefix (''Conversation with Alice and Bob'' @ ''\<newline>\<newline>Date: '')
         ''Conversation with Alice and Bob and Bob\<newline>\<newline>Date: January 2, 2024\<newline>Duration: 1 minute\<newline>\<newline>* 09:05  Alice: hi\<newline>\<newline>+ 09:05  Bob: hello\<newline>\<newline>+ 09:05  Bob: hello\<newline>\<newline>''
   \<and> getTranscriptData
         (Some [ex_message None, (ex_message None) \<lparr> message_author := Some ''u9'' \<rparr>])
         (Some ex_users) = [ex_alice, ex_unknown]
   \<and> generateTranscript ex_ext [ex_alice, ex_unknown] =
       Inr ''Conversation with Alice and undefined\<newline>\<newline>Date: January 2, 2024\<newline>Duration: 1 minute\<newline>\<newline>* 09:05  Alice: hi\<newline>\<newline>+ 09:05  undefined: hi\<newline>\<newline>''
   \<and> title_spec [ex_alice, ex_unknown] = Some ''Conversation with Alice''
   \<and> \<not> prefix (''Conversation with Alice'' @ ''\<newline>\<newline>Date: '')
         ''Conversation with Alice and undefined\<newline>\<newline>Date: January 2, 2024\<newline>Duration: 1 minute\<newline>\<newline>* 09:05  Alice: hi\<newline>\<newline>+ 09:05  undefined: hi\<newline>\<newline>''"
  by code_simp

text \<open>
  C1, amended. The transcript of a non-empty entry list starts with the title
  \<^verbatim>\<open>Conversation with {customer}\<close>, the customer being the author of the first entry,
  followed by one \<^verbatim>\<open>" and {author}"\<close> for every later entry (not for every distinct name)
  whose author differs from the customer and from \<^verbatim>\<open>"Concierge"\<close>, in the order of the
  entries. Here the author of an entry is a name or absent: absent differs from every
  name and equals absent, and it prints as \<^verbatim>\<open>undefined\<close>, as customer and after
  \<^verbatim>\<open>and\<close> alike. So an entry without author is appended when the customer has a name, and
  is not when the customer has none. The title ends where \<^verbatim>\<open>Date:\<close> begins, two line
  feeds later. For entries authored Alice, Bob, Alice the title is
  \<^verbatim>\<open>Conversation with Alice and Bob\<close>.
\<close>

theorem title_one_and_per_agent_entry:
  assumes "generateTranscript ext (first # rest) = Inr transcript"
  shows "prefix (''Conversation with '' @ interp (author first)
                 @ concat (map (\<lambda>name. '' and '' @ interp name)
                             (filter (\<lambda>name. name \<noteq> author first \<and> name \<noteq> Some ''Concierge'')
                                (map author rest)))
                 @ ''\<newline>\<newline>Date: '') transcript"
proof -
  let ?agents = "filter (\<lambda>name. name \<noteq> author first \<and> name \<noteq> Some ''Concierge'') (map author rest)"
  let ?tail = "toLocaleString_long (timeStamp first) @ ''\<newline>Duration: ''
                 @ generateDuration ext (first # rest) @ ''\<newline>\<newline>''"
  from assms have "generateTranscript_loop (author first) (first # rest)
      ((conversationTitle (author first) ?agents @ ''\<newline>\<newline>Date: '') @ ?tail) = Inr transcript"
    by (simp add: generateTranscript_Cons)
  then have "prefix ((conversationTitle (author first) ?agents @ ''\<newline>\<newline>Date: '') @ ?tail) transcript"
    by (rule loop_prefix)
  then have "prefix (conversationTitle (author first) ?agents @ ''\<newline>\<newline>Date: '') transcript"
    by (rule append_prefixD)
  then show ?thesis by (simp add: conversationTitle_concat)
qed

theorem title_one_and_per_agent_entry_witness:
  "generateTranscript ex_ext [ex_alice, ex_bob, ex_alice] =
     Inr ''Conversation with Alice and Bob\<newline>\<newline>Date: January 2, 2024\<newline>Duration: 1 minute\<newline>\<newline>* 09:05  Alice: hi\<newline>\<newline>+ 09:05  Bob: hello\<newline>\<newline>* 09:05  Alice: hi\<newline>\<newline>''
   \<and> prefix ''Conversation with Alice and Bob\<newline>\<newline>Date: ''
        ''Conversation with Alice and Bob\<newline>\<newline>Date: January 2, 2024\<newline>Duration: 1 minute\<newline>\<newline>* 09:05  Alice: hi\<newline>\<newline>+ 09:05  Bob: hello\<newline>\<newline>* 09:05  Alice: hi\<newline>\<newline>''
   \<and> generateTranscript ex_ext [ex_alice, ex_bob, ex_unknown, ex_bob] =
     Inr ''Conversation with Alice and Bob and undefined and Bob\<newline>\<newline>Date: January 2, 2024\<newline>Duration: 1 minute\<newline>\<newline>* 09:05  Alice: hi\<newline>\<newline>+ 09:05  Bob: hello\<newline>\<newline>+ 09:05  undefined: hi\<newline>\<newline>+ 09:05  Bob: hello\<newline>\<newline>''
   \<and> prefix ''Conversation with Alice and Bob and undefined and Bob\<newline>\<newline>Date: ''
        ''Conversation with Alice and Bob and undefined and Bob\<newline>\<newline>Date: January 2, 2024\<newline>Duration: 1 minute\<newline>\<newline>* 09:05  Alice: hi\<newline>\<newline>+ 09:05  Bob: hello\<newline>\<newline>+ 09:05  undefined: hi\<newline>\<newline>+ 09:05  Bob: hello\<newline>\<newline>''
   \<and> generateTranscript ex_ext [ex_unknown, ex_unknown, ex_bob] =
     Inr ''Conversation with undefined and Bob\<newline>\<newline>Date: January 2, 2024\<newline>Duration: 1 minute\<newline>\<newline>* 09:05  undefined: hi\<newline>\<newline>* 09:05  undefined: hi\<newline>\<newline>+ 09:05  Bob: hello\<newline>\<newline>''
   \<and> prefix ''Conversation with undefined and Bob\<newline>\<newline>Date: ''
        ''Conversation with undefined and Bob\<newline>\<newline>Date: January 2, 2024\<newline>Duration: 1 minute\<newline>\<newline>* 09:05  undefined: hi\<newline>\<newline>* 09:05  undefined: hi\<newline>\<newline>+ 09:05  Bob: hello\<newline>\<newline>''"
proof -
  have once: "generateTranscript ex_ext (ex_alice # [ex_bob, ex_alice]) =
     Inr ''Conversation with Alice and Bob\<newline>\<newline>Date: January 2, 2024\<newline>Duration: 1 minute\<newline>\<newline>* 09:05  Alice: hi\<newline>\<newline>+ 09:05  Bob: hello\<newline>\<newline>* 09:05  Alice: hi\<newline>\<newline>''"
    by code_simp
  have twice: "generateTranscript ex_ext (ex_alice # [ex_bob, ex_unknown, ex_bob]) =
     Inr ''Conversation with Alice and Bob and undefined and Bob\<newline>\<newline>Date: January 2, 2024\<newline>Duration: 1 minute\<newline>\<newline>* 09:05  Alice: hi\<newline>\<newline>+ 09:05  Bob: hello\<newline>\<newline>+ 09:05  undefined: hi\<newline>\<newline>+ 09:05  Bob: hello\<newline>\<newline>''"
    by code_simp
  have nameless: "generateTranscript ex_ext (ex_unknown # [ex_unknown, ex_bob]) =
     Inr ''Conversation with undefined and Bob\<newline>\<newline>Date: January 2, 2024\<newline>Duration: 1 minute\<newline>\<newline>* 09:05  undefined: hi\<newline>\<newline>* 09:05  undefined: hi\<newline>\<newline>+ 09:05  Bob: hello\<newline>\<newline>''"
    by code_simp
  show ?thesis
    using once twice nameless
      title_one_and_per_agent_entry [OF once]
      title_one_and_per_agent_entry [OF twice]
      title_one_and_per_agent_entry [OF nameless]
    by (simp add: ex_alice_def ex_bob_def ex_unknown_def interp_def)
qed

text \<open>
  C8. An entry with at least one attached media item renders as its line (bullet, time,
  author, body) followed by the marker \<^verbatim>\<open> (** Attached file {filename} **)\<close> with the file
  name of the first item only, whatever the other items are; and whenever
  \<^verbatim>\<open>generateTranscript\<close> returns a transcript, the transcript contains that line of every
  such entry, marker included, closed by the blank line. For attachments a.png, b.png the
  marker names a.png, and the transcript does not mention b.png.
\<close>

theorem attachment_marker_first_file:
  assumes "generateTranscript ext (first # rest) = Inr transcript"
      and "message \<in> set (first # rest)"
      and "attachedMedia message = Some (media # others)"
  shows "messageText customerName message =
           Inr ((if author message = customerName then ''*'' else ''+'') @ '' ''
                @ doubleDigit (getHours (timeStamp message)) @ '':''
                @ doubleDigit (getMinutes (timeStamp message)) @ ''  ''
                @ interp (author message) @ '': '' @ body message
                @ '' (** Attached file '' @ filename media @ '' **)'')
         \<and> sublist ((if author message = author first then ''*'' else ''+'') @ '' ''
                     @ doubleDigit (getHours (timeStamp message)) @ '':''
                     @ doubleDigit (getMinutes (timeStamp message)) @ ''  ''
                     @ interp (author message) @ '': '' @ body message
                     @ '' (** Attached file '' @ filename media @ '' **)'' @ ''\<newline>\<newline>'')
                    transcript"
proof -
  have line: "messageText c message =
           Inr ((if author message = c then ''*'' else ''+'') @ '' ''
                @ doubleDigit (getHours (timeStamp message)) @ '':''
                @ doubleDigit (getMinutes (timeStamp message)) @ ''  ''
                @ interp (author message) @ '': '' @ body message
                @ '' (** Attached file '' @ filename media @ '' **)'')" for c
    using assms(3) by (simp add: messageText_def Let_def)
  from assms(1) obtain header
    where "generateTranscript_loop (author first) (first # rest) header = Inr transcript"
    by (simp add: generateTranscript_Cons)
  then have "sublist (((if author message = author first then ''*'' else ''+'') @ '' ''
                @ doubleDigit (getHours (timeStamp message)) @ '':''
                @ doubleDigit (getMinutes (timeStamp message)) @ ''  ''
                @ interp (author message) @ '': '' @ body message
                @ '' (** Attached file '' @ filename media @ '' **)'') @ ''\<newline>\<newline>'') transcript"
    using assms(2) line [of "author first"] by (rule loop_contains_line)
  with line [of customerName] show ?thesis by simp
qed

theorem attachment_marker_first_file_witness:
  "generateTranscript ex_ext [ex_bob, ex_alice \<lparr> attachedMedia := Some [ex_a_png, ex_b_png] \<rparr>] =
     Inr ''Conversation with Bob and Alice\<newline>\<newline>Date: January 2, 2024\<newline>Duration: 1 minute\<newline>\<newline>* 09:05  Bob: hello\<newline>\<newline>+ 09:05  Alice: hi (** Attached file a.png **)\<newline>\<newline>''
   \<and> attachedMedia (ex_alice \<lparr> attachedMedia := Some [ex_a_png, ex_b_png] \<rparr>) = Some (ex_a_png # [ex_b_png])
   \<and> messageText (Some ''Alice'') (ex_alice \<lparr> attachedMedia := Some [ex_a_png, ex_b_png] \<rparr>)
       = Inr ''* 09:05  Alice: hi (** Attached file a.png **)''
   \<and> sublist ''+ 09:05  Alice: hi (** Attached file a.png **)\<newline>\<newline>''
        ''Conversation with Bob and Alice\<newline>\<newline>Date: January 2, 2024\<newline>Duration: 1 minute\<newline>\<newline>* 09:05  Bob: hello\<newline>\<newline>+ 09:05  Alice: hi (** Attached file a.png **)\<newline>\<newline>''
   \<and> \<not> sublist ''b.png''
        ''Conversation with Bob and Alice\<newline>\<newline>Date: January 2, 2024\<newline>Duration: 1 minute\<newline>\<newline>* 09:05  Bob: hello\<newline>\<newline>+ 09:05  Alice: hi (** Attached file a.png **)\<newline>\<newline>''"
proof -
  let ?entry = "ex_alice \<lparr> attachedMedia := Some [ex_a_png, ex_b_png] \<rparr>"
  have r: "generateTranscript ex_ext (ex_bob # [?entry]) =
     Inr ''Conversation with Bob and Alice\<newline>\<newline>Date: January 2, 2024\<newline>Duration: 1 minute\<newline>\<newline>* 09:05  Bob: hello\<newline>\<newline>+ 09:05  Alice: hi (** Attached file a.png **)\<newline>\<newline>''"
    by code_simp
  have m: "?entry \<in> set (ex_bob # [?entry])" by simp
  have h: "attachedMedia ?entry = Some (ex_a_png # [ex_b_png])" by simp
  have absent: "\<not> sublist ''b.png''
        ''Conversation with Bob and Alice\<newline>\<newline>Date: January 2, 2024\<newline>Duration: 1 minute\<newline>\<newline>* 09:05  Bob: hello\<newline>\<newline>+ 09:05  Alice: hi (** Attached file a.png **)\<newline>\<newline>''"
    by code_simp
  show ?thesis
    using r h absent attachment_marker_first_file [OF r m h, of "Some ''Alice''"]
    by (simp add: ex_alice_def ex_bob_def ex_a_png_def ex_date_def interp_def doubleDigit_def
          Number_toString.simps)
qed

text \<open>
  C9. An entry whose \<^verbatim>\<open>attachedMedia\<close> is present and empty takes the marker branch, reads
  \<^verbatim>\<open>attachedMedia[0].filename\<close> and fails; one such entry makes the whole rendering fail.
  \<^verbatim>\<open>generateTranscript\<close> returns a transcript exactly when the list is non-empty and no
  entry has a present, empty \<^verbatim>\<open>attachedMedia\<close>.
\<close>

theorem generateTranscript_total_iff:
  "(attachedMedia entry = Some [] \<longrightarrow> messageText customerName entry = Inl TypeError)
   \<and> (entry \<in> set entries \<and> attachedMedia entry = Some [] \<longrightarrow>
        generateTranscript ext entries = Inl TypeError)
   \<and> ((\<exists>transcript. generateTranscript ext entries = Inr transcript)
        \<longleftrightarrow> entries \<noteq> [] \<and> (\<forall>entry\<in>set entries. attachedMedia entry \<noteq> Some []))"
proof (intro conjI impI)
  assume "attachedMedia entry = Some []"
  then show "messageText customerName entry = Inl TypeError"
    by (simp add: messageText_Inl_iff)
next
  assume "entry \<in> set entries \<and> attachedMedia entry = Some []"
  then show "generateTranscript ext entries = Inl TypeError"
    by (auto simp add: generateTranscript_Inl_iff)
next
  have "(\<exists>transcript. generateTranscript ext entries = Inr transcript)
          \<longleftrightarrow> generateTranscript ext entries \<noteq> Inl TypeError"
  proof
    assume "\<exists>transcript. generateTranscript ext entries = Inr transcript"
    then show "generateTranscript ext entries \<noteq> Inl TypeError" by auto
  next
    assume ne: "generateTranscript ext entries \<noteq> Inl TypeError"
    obtain r where r: "generateTranscript ext entries = r" by simp
    show "\<exists>transcript. generateTranscript ext entries = Inr transcript"
    proof (cases r)
      case (Inl e)
      with r ne show ?thesis by (cases e) simp
    next
      case (Inr transcript)
      with r show ?thesis by simp
    qed
  qed
  then show "(\<exists>transcript. generateTranscript ext entries = Inr transcript)
               \<longleftrightarrow> entries \<noteq> [] \<and> (\<forall>entry\<in>set entries. attachedMedia entry \<noteq> Some [])"
    by (simp add: generateTranscript_Inl_iff)
qed

theorem generateTranscript_total_iff_witness:
  "attachedMedia (ex_bob \<lparr> attachedMedia := Some [] \<rparr>) = Some []
   \<and> messageText (Some ''Alice'') (ex_bob \<lparr> attachedMedia := Some [] \<rparr>) = Inl TypeError
   \<and> generateTranscript ex_ext [ex_alice, ex_bob \<lparr> attachedMedia := Some [] \<rparr>] = Inl TypeError
   \<and> (\<exists>transcript. generateTranscript ex_ext [ex_alice, ex_bob \<lparr> attachedMedia := Some [ex_a_png] \<rparr>]
         = Inr transcript)"
proof -
  have h: "attachedMedia (ex_bob \<lparr> attachedMedia := Some [] \<rparr>) = Some []" by simp
  have ok: "attachedMedia ex_alice \<noteq> Some []
            \<and> attachedMedia (ex_bob \<lparr> attachedMedia := Some [ex_a_png] \<rparr>) \<noteq> Some []"
    by (simp add: ex_alice_def)
  show ?thesis
    using h ok
      generateTranscript_total_iff [of "ex_bob \<lparr> attachedMedia := Some [] \<rparr>" "Some ''Alice''"
        "[ex_alice, ex_bob \<lparr> attachedMedia := Some [] \<rparr>]" ex_ext]
      generateTranscript_total_iff [of ex_alice None
        "[ex_alice, ex_bob \<lparr> attachedMedia := Some [ex_a_png] \<rparr>]" ex_ext]
    by simp
qed

text \<open>
  C5. Rendering an empty entry list fails. In the handler this happens first: when
  extraction yields no entry, the handler's promise rejects, and all it has done is to
  set the loading flag. No blob is created and nothing reaches the download sink.
\<close>

theorem empty_transcript_rejected:
  "generateTranscript ext [] = Inl TypeError
   \<and> (getTranscriptData messages users = [] \<longrightarrow>
        handleDownloadTranscript ext messages users = ([SetDownloadingTranscript True], Inl TypeError)
        \<and> createdBlobs (fst (handleDownloadTranscript ext messages users)) = []
        \<and> savedArtifacts (fst (handleDownloadTranscript ext messages users)) = [])"
proof -
  have rejected: "generateTranscript ext [] = Inl TypeError"
    by (rule generateTranscript_Nil)
  have run: "handleDownloadTranscript ext messages users
               = ([SetDownloadingTranscript True], Inl TypeError)"
    if "getTranscriptData messages users = []"
    using that rejected by (simp add: handleDownloadTranscript_def)
  have "createdBlobs [SetDownloadingTranscript True] = []"
    and "savedArtifacts [SetDownloadingTranscript True] = []"
    by (simp_all add: createdBlobs_def savedArtifacts_def)
  with rejected run show ?thesis by simp
qed

theorem empty_transcript_rejected_witness:
  "getTranscriptData (Some []) (Some ex_users) = []
   \<and> handleDownloadTranscript ex_ext (Some []) (Some ex_users) = ([SetDownloadingTranscript True], Inl TypeError)
   \<and> getTranscriptData None (Some ex_users) = []
   \<and> handleDownloadTranscript ex_ext None (Some ex_users) = ([SetDownloadingTranscript True], Inl TypeError)"
proof -
  have a: "getTranscriptData (Some []) (Some ex_users) = []" by (simp add: getTranscriptData_def)
  have b: "getTranscriptData None (Some ex_users) = []" by (simp add: getTranscriptData_def)
  show ?thesis
    using a b empty_transcript_rejected [of ex_ext "Some []" "Some ex_users"]
      empty_transcript_rejected [of ex_ext None "Some ex_users"]
    by simp
qed

subsection \<open>Packaging (getMediaUrls, handleDownloadTranscript)\<close>

text \<open>
  C10. \<^verbatim>\<open>getMediaUrls\<close> never calls \<^verbatim>\<open>URL.createObjectURL\<close>: it asks every attachment
  for its temporary URL, and the URLs it returns are those answers, each with the file
  name of its attachment. What \<^verbatim>\<open>createObjectURL\<close> would compute has no influence on the
  result.
\<close>

theorem object_url_fallback_unreachable:
  "objectURLs (snd (getMediaUrls ext messages)) = []
   \<and> resolutions (snd (getMediaUrls ext messages)) = attachments messages
   \<and> fst (getMediaUrls ext messages) = concat (map resolved (attachments messages))
   \<and> getMediaUrls (ext \<lparr> createObjectURL := other \<rparr>) messages = getMediaUrls ext messages"
proof -
  have "objectURLs (snd (getMediaUrls ext messages)) = []"
    by (simp only: getMediaUrls_eq snd_conv trace_objectURLs)
  moreover have "resolutions (snd (getMediaUrls ext messages)) = attachments messages"
    by (simp only: getMediaUrls_eq snd_conv trace_resolutions)
  moreover have "fst (getMediaUrls ext messages) = concat (map resolved (attachments messages))"
    by (simp only: getMediaUrls_eq fst_conv)
  moreover have "getMediaUrls (ext \<lparr> createObjectURL := other \<rparr>) messages = getMediaUrls ext messages"
    by (simp only: getMediaUrls_eq)
  ultimately show ?thesis by blast
qed

text \<open>
  C2. Once the transcript is rendered, a URL resolution that fails is logged and its
  item is left out of \<^verbatim>\<open>mediaURLs\<close>; every attachment is tried, whatever happened to the
  ones before; the handler's promise fulfils. When an item is left, the archive on which
  \<^verbatim>\<open>generateAsync\<close> is called holds the transcript as \<^verbatim>\<open>{fileName}.txt\<close> and, after it,
  one file per resolved item under the item's file name, and nothing else; it is saved as
  \<^verbatim>\<open>{fileName}.zip\<close> when its generation succeeds. With two attachments of which one fails
  to resolve, these are two files: the transcript and the other attachment. (The archive
  is the sequence of \<^verbatim>\<open>folder.file\<close> calls; how the library stores two files of one
  name is not part of the model.)
\<close>

theorem failed_resolution_dropped:
  assumes "generateTranscript ext (getTranscriptData messages users) = Inr transcript"
  shows "fst (getMediaUrls ext messages) = concat (map resolved (attachments messages))
         \<and> loggedErrors (snd (getMediaUrls ext messages))
             = concat (map resolutionFailure (attachments messages))
         \<and> resolutions (snd (getMediaUrls ext messages)) = attachments messages
         \<and> snd (handleDownloadTranscript ext messages users) = Inr ()
         \<and> (\<exists>fileName. downloadFileName ext (getTranscriptData messages users) = Inr fileName
              \<and> (fst (getMediaUrls ext messages) \<noteq> [] \<longrightarrow>
                   archives (fst (handleDownloadTranscript ext messages users))
                     = [\<lparr> folder = fileName,
                          files = (fileName @ ''.txt'', Inr (Blob [transcript] ''text/plain''))
                                  # map (\<lambda>mediaURL. (url_filename mediaURL,
                                                       blobPromise ext (url mediaURL)))
                                      (fst (getMediaUrls ext messages)) \<rparr>]
                   \<and> (\<forall>archive.
                         generateAsync ext (buildZip ext fileName (Blob [transcript] ''text/plain'')
                                              (fst (getMediaUrls ext messages))) = Inr archive
                         \<longrightarrow> savedArtifacts (fst (handleDownloadTranscript ext messages users))
                               = [(archive, fileName @ ''.zip'')]))
              \<and> (\<forall>ok failed u e.
                    (attachments messages = [ok, failed] \<or> attachments messages = [failed, ok])
                    \<and> getContentTemporaryUrl ok = Inr u \<and> getContentTemporaryUrl failed = Inl e
                    \<longrightarrow> archives (fst (handleDownloadTranscript ext messages users))
                          = [\<lparr> folder = fileName,
                               files = [(fileName @ ''.txt'', Inr (Blob [transcript] ''text/plain'')),
                                        (filename ok, blobPromise ext u)] \<rparr>]
                        \<and> loggedErrors (snd (getMediaUrls ext messages))
                            = [''Failed downloading message attachment: '' @ e]))"
proof -
  from assms obtain fileName
    where fileName: "downloadFileName ext (getTranscriptData messages users) = Inr fileName"
    using rendered_has_fileName by blast
  note run = handle_rendered [OF assms fileName]
  have urls: "fst (getMediaUrls ext messages) = concat (map resolved (attachments messages))"
    by (simp only: getMediaUrls_eq fst_conv)
  have logged: "loggedErrors (snd (getMediaUrls ext messages))
                  = concat (map resolutionFailure (attachments messages))"
    by (simp only: getMediaUrls_eq snd_conv trace_loggedErrors)
  have tried: "resolutions (snd (getMediaUrls ext messages)) = attachments messages"
    by (simp only: getMediaUrls_eq snd_conv trace_resolutions)
  have settles: "snd (handleDownloadTranscript ext messages users) = Inr ()"
    by (simp add: run Let_def)
  have zip: "archives (fst (handleDownloadTranscript ext messages users))
               = [\<lparr> folder = fileName,
                    files = (fileName @ ''.txt'', Inr (Blob [transcript] ''text/plain''))
                            # map (\<lambda>mediaURL. (url_filename mediaURL, blobPromise ext (url mediaURL)))
                                (fst (getMediaUrls ext messages)) \<rparr>]"
    if "fst (getMediaUrls ext messages) \<noteq> []"
    using that
    by (simp add: run Let_def archives_simps getMediaUrls_saves_nothing buildZip_files
          split: sum.splits)
  have saved: "savedArtifacts (fst (handleDownloadTranscript ext messages users))
                 = [(archive, fileName @ ''.zip'')]"
    if "fst (getMediaUrls ext messages) \<noteq> []"
      and "generateAsync ext (buildZip ext fileName (Blob [transcript] ''text/plain'')
                                (fst (getMediaUrls ext messages))) = Inr archive"
    for archive
    using that
    by (simp add: run Let_def savedArtifacts_simps getMediaUrls_saves_nothing)
  have two: "archives (fst (handleDownloadTranscript ext messages users))
               = [\<lparr> folder = fileName,
                    files = [(fileName @ ''.txt'', Inr (Blob [transcript] ''text/plain'')),
                             (filename ok, blobPromise ext u)] \<rparr>]
             \<and> loggedErrors (snd (getMediaUrls ext messages))
                 = [''Failed downloading message attachment: '' @ e]"
    if both: "attachments messages = [ok, failed] \<or> attachments messages = [failed, ok]"
      and ok: "getContentTemporaryUrl ok = Inr u"
      and failed: "getContentTemporaryUrl failed = Inl e"
    for ok failed u e
  proof -
    from both ok failed
    have one: "fst (getMediaUrls ext messages) = [\<lparr> url = u, url_filename = filename ok \<rparr>]"
      by (auto simp add: urls resolved_def)
    from both ok failed
    have "loggedErrors (snd (getMediaUrls ext messages))
            = [''Failed downloading message attachment: '' @ e]"
      by (auto simp add: logged resolutionFailure_def)
    moreover from one have "fst (getMediaUrls ext messages) \<noteq> []" by simp
    then have "archives (fst (handleDownloadTranscript ext messages users))
                 = [\<lparr> folder = fileName,
                      files = (fileName @ ''.txt'', Inr (Blob [transcript] ''text/plain''))
                              # map (\<lambda>mediaURL. (url_filename mediaURL,
                                                   blobPromise ext (url mediaURL)))
                                  (fst (getMediaUrls ext messages)) \<rparr>]"
      by (rule zip)
    ultimately show ?thesis by (simp add: one)
  qed
  from urls logged tried settles fileName zip saved two show ?thesis by blast
qed

theorem failed_resolution_dropped_witness:
  "attachments (Some [ex_message (Some [ex_a_png, ex_b_png])]) = [ex_a_png, ex_b_png]
   \<and> getContentTemporaryUrl ex_a_png = Inr ''https://media/a''
   \<and> getContentTemporaryUrl ex_b_png = Inl ''Error: expired''
   \<and> fst (getMediaUrls ex_ext (Some [ex_message (Some [ex_a_png, ex_b_png])]))
       = [\<lparr> url = ''https://media/a'', url_filename = ''a.png'' \<rparr>]
   \<and> loggedErrors (snd (getMediaUrls ex_ext (Some [ex_message (Some [ex_a_png, ex_b_png])])))
       = [''Failed downloading message attachment: Error: expired'']
   \<and> snd (handleDownloadTranscript ex_ext (Some [ex_message (Some [ex_a_png, ex_b_png])])
            (Some ex_users)) = Inr ()
   \<and> archives (fst (handleDownloadTranscript ex_ext (Some [ex_message (Some [ex_a_png, ex_b_png])])
                      (Some ex_users)))
       = [\<lparr> folder = ''chat-with-alice-tue-jan-02-2024'',
            files = [(''chat-with-alice-tue-jan-02-2024.txt'',
                      Inr (Blob [''Conversation with Alice\<newline>\<newline>Date: January 2, 2024\<newline>Duration: 1 minute\<newline>\<newline>* 09:05  Alice: hi (** Attached file a.png **)\<newline>\<newline>''] ''text/plain'')),
                     (''a.png'', Inr (Blob [''https://media/a''] ''image/png''))] \<rparr>]
   \<and> savedArtifacts (fst (handleDownloadTranscript ex_ext
                             (Some [ex_message (Some [ex_a_png, ex_b_png])]) (Some ex_users)))
       = [(ex_archive, ''chat-with-alice-tue-jan-02-2024.zip'')]"
proof -
  let ?ms = "Some [ex_message (Some [ex_a_png, ex_b_png])]"
  have r: "generateTranscript ex_ext (getTranscriptData ?ms (Some ex_users)) =
             Inr ''Conversation with Alice\<newline>\<newline>Date: January 2, 2024\<newline>Duration: 1 minute\<newline>\<newline>* 09:05  Alice: hi (** Attached file a.png **)\<newline>\<newline>''"
    by code_simp
  have f: "downloadFileName ex_ext (getTranscriptData ?ms (Some ex_users))
             = Inr ''chat-with-alice-tue-jan-02-2024''"
    by code_simp
  have a: "attachments ?ms = [ex_a_png, ex_b_png]"
    by (simp add: attachments_def ex_message_def)
  have u: "getContentTemporaryUrl ex_a_png = Inr ''https://media/a''"
          "getContentTemporaryUrl ex_b_png = Inl ''Error: expired''"
          "filename ex_a_png = ''a.png''"
    by (simp_all add: ex_a_png_def ex_b_png_def)
  have z: "generateAsync ex_ext z = Inr ex_archive" for z
    by (simp add: ex_ext_def)
  have p: "blobPromise ex_ext ''https://media/a'' = Inr (Blob [''https://media/a''] ''image/png'')"
    by (simp add: blobPromise_def ex_ext_def)
  show ?thesis
    using a u f z p failed_resolution_dropped [OF r]
    by (simp add: resolved_def resolutionFailure_def)
qed

text \<open>
  C4. Once the transcript is rendered, if the resolution of every attachment fails (in
  particular if there is no attachment), no item is left, and what reaches the download
  sink is the blob of the transcript text, of type \<^verbatim>\<open>text/plain\<close>, under the name
  \<^verbatim>\<open>{fileName}.txt\<close>. No archive is generated.
\<close>

theorem no_media_plain_text_artifact:
  assumes "generateTranscript ext (getTranscriptData messages users) = Inr transcript"
      and "\<forall>media\<in>set (attachments messages). isl (getContentTemporaryUrl media)"
  shows "\<exists>fileName. downloadFileName ext (getTranscriptData messages users) = Inr fileName
           \<and> fst (getMediaUrls ext messages) = []
           \<and> savedArtifacts (fst (handleDownloadTranscript ext messages users))
               = [(Blob [transcript] ''text/plain'', fileName @ ''.txt'')]
           \<and> archives (fst (handleDownloadTranscript ext messages users)) = []
           \<and> snd (handleDownloadTranscript ext messages users) = Inr ()"
proof -
  from assms(1) obtain fileName
    where fileName: "downloadFileName ext (getTranscriptData messages users) = Inr fileName"
    using rendered_has_fileName by blast
  note run = handle_rendered [OF assms(1) fileName]
  from assms(2) have "concat (map resolved (attachments messages)) = []"
    by (simp only: resolved_Nil_iff)
  then have none: "fst (getMediaUrls ext messages) = []"
    by (simp only: getMediaUrls_eq fst_conv)
  have "savedArtifacts (fst (handleDownloadTranscript ext messages users))
          = [(Blob [transcript] ''text/plain'', fileName @ ''.txt'')]"
    by (simp add: run Let_def none savedArtifacts_simps getMediaUrls_saves_nothing)
  moreover have "archives (fst (handleDownloadTranscript ext messages users)) = []"
    by (simp add: run Let_def none archives_simps getMediaUrls_saves_nothing)
  moreover have "snd (handleDownloadTranscript ext messages users) = Inr ()"
    by (simp add: run Let_def none)
  ultimately show ?thesis using fileName none by blast
qed

theorem no_media_plain_text_artifact_witness:
  "attachments (Some [ex_message (Some [ex_b_png]), ex_message None]) = [ex_b_png]
   \<and> isl (getContentTemporaryUrl ex_b_png)
   \<and> savedArtifacts (fst (handleDownloadTranscript ex_ext
        (Some [ex_message (Some [ex_b_png]), ex_message None]) (Some ex_users)))
      = [(Blob [''Conversation with Alice\<newline>\<newline>Date: January 2, 2024\<newline>Duration: 1 minute\<newline>\<newline>* 09:05  Alice: hi (** Attached file b.png **)\<newline>\<newline>* 09:05  Alice: hi\<newline>\<newline>''] ''text/plain'',
          ''chat-with-alice-tue-jan-02-2024.txt'')]
   \<and> archives (fst (handleDownloadTranscript ex_ext
        (Some [ex_message (Some [ex_b_png]), ex_message None]) (Some ex_users))) = []
   \<and> savedArtifacts (fst (handleDownloadTranscript ex_ext (Some [ex_message None]) (Some ex_users)))
      = [(Blob [''Conversation with Alice\<newline>\<newline>Date: January 2, 2024\<newline>Duration: 1 minute\<newline>\<newline>* 09:05  Alice: hi\<newline>\<newline>''] ''text/plain'',
          ''chat-with-alice-tue-jan-02-2024.txt'')]"
proof -
  let ?ms = "Some [ex_message (Some [ex_b_png]), ex_message None]"
  let ?ms' = "Some [ex_message None]"
  have r: "generateTranscript ex_ext (getTranscriptData ?ms (Some ex_users)) =
             Inr ''Conversation with Alice\<newline>\<newline>Date: January 2, 2024\<newline>Duration: 1 minute\<newline>\<newline>* 09:05  Alice: hi (** Attached file b.png **)\<newline>\<newline>* 09:05  Alice: hi\<newline>\<newline>''"
    by code_simp
  have r': "generateTranscript ex_ext (getTranscriptData ?ms' (Some ex_users)) =
             Inr ''Conversation with Alice\<newline>\<newline>Date: January 2, 2024\<newline>Duration: 1 minute\<newline>\<newline>* 09:05  Alice: hi\<newline>\<newline>''"
    by code_simp
  have a: "attachments ?ms = [ex_b_png]" and a': "attachments ?ms' = []"
    by (simp_all add: attachments_def ex_message_def)
  have b: "isl (getContentTemporaryUrl ex_b_png)" by (simp add: ex_b_png_def)
  have f: "downloadFileName ex_ext (getTranscriptData ?ms (Some ex_users))
             = Inr ''chat-with-alice-tue-jan-02-2024''"
    and f': "downloadFileName ex_ext (getTranscriptData ?ms' (Some ex_users))
             = Inr ''chat-with-alice-tue-jan-02-2024''"
    by code_simp+
  from a b have all: "\<forall>media\<in>set (attachments ?ms). isl (getContentTemporaryUrl media)" by simp
  from a' have all': "\<forall>media\<in>set (attachments ?ms'). isl (getContentTemporaryUrl media)" by simp
  show ?thesis
    using a b f f' no_media_plain_text_artifact [OF r all] no_media_plain_text_artifact [OF r' all']
    by auto
qed

text \<open>
  C6. When an item is left and the generation of the archive fails, the failure is
  logged, as the last event of the run and after the failures of the resolutions; the
  download sink receives nothing, the transcript text neither; the handler's promise
  fulfils all the same.
\<close>

theorem zip_failure_no_artifact:
  assumes "generateTranscript ext (getTranscriptData messages users) = Inr transcript"
      and "downloadFileName ext (getTranscriptData messages users) = Inr fileName"
      and "fst (getMediaUrls ext messages) \<noteq> []"
      and "generateAsync ext (buildZip ext fileName (Blob [transcript] ''text/plain'')
                                (fst (getMediaUrls ext messages))) = Inl e"
  shows "savedArtifacts (fst (handleDownloadTranscript ext messages users)) = []
         \<and> last (fst (handleDownloadTranscript ext messages users))
             = LogError (''Failed zipping message attachments: '' @ e)
         \<and> loggedErrors (fst (handleDownloadTranscript ext messages users))
             = loggedErrors (snd (getMediaUrls ext messages))
               @ [''Failed zipping message attachments: '' @ e]
         \<and> snd (handleDownloadTranscript ext messages users) = Inr ()"
proof -
  note run = handle_rendered [OF assms(1) assms(2)]
  have "savedArtifacts (fst (handleDownloadTranscript ext messages users)) = []"
    by (simp add: run Let_def assms(3,4) savedArtifacts_simps getMediaUrls_saves_nothing)
  moreover have "last (fst (handleDownloadTranscript ext messages users))
                   = LogError (''Failed zipping message attachments: '' @ e)"
    by (simp add: run Let_def assms(3,4))
  moreover have "loggedErrors (fst (handleDownloadTranscript ext messages users))
                   = loggedErrors (snd (getMediaUrls ext messages))
                     @ [''Failed zipping message attachments: '' @ e]"
    by (simp add: run Let_def assms(3,4) loggedErrors_simps)
  moreover have "snd (handleDownloadTranscript ext messages users) = Inr ()"
    by (simp add: run Let_def assms(3))
  ultimately show ?thesis by blast
qed

theorem zip_failure_no_artifact_witness:
  "fst (getMediaUrls ex_ext_nozip (Some [ex_message (Some [ex_b_png, ex_a_png])]))
     = [\<lparr> url = ''https://media/a'', url_filename = ''a.png'' \<rparr>]
   \<and> savedArtifacts (fst (handleDownloadTranscript ex_ext_nozip
        (Some [ex_message (Some [ex_b_png, ex_a_png])]) (Some ex_users))) = []
   \<and> loggedErrors (fst (handleDownloadTranscript ex_ext_nozip
        (Some [ex_message (Some [ex_b_png, ex_a_png])]) (Some ex_users)))
      = [''Failed downloading message attachment: Error: expired'',
         ''Failed zipping message attachments: Error: compression'']
   \<and> snd (handleDownloadTranscript ex_ext_nozip
        (Some [ex_message (Some [ex_b_png, ex_a_png])]) (Some ex_users)) = Inr ()"
proof -
  let ?ms = "Some [ex_message (Some [ex_b_png, ex_a_png])]"
  have r: "generateTranscript ex_ext_nozip (getTranscriptData ?ms (Some ex_users)) =
             Inr ''Conversation with Alice\<newline>\<newline>Date: January 2, 2024\<newline>Duration: 1 minute\<newline>\<newline>* 09:05  Alice: hi (** Attached file b.png **)\<newline>\<newline>''"
    by code_simp
  have f: "downloadFileName ex_ext_nozip (getTranscriptData ?ms (Some ex_users))
             = Inr ''chat-with-alice-tue-jan-02-2024''"
    by code_simp
  have m: "fst (getMediaUrls ex_ext_nozip ?ms) = [\<lparr> url = ''https://media/a'', url_filename = ''a.png'' \<rparr>]"
    by code_simp
  then have ne: "fst (getMediaUrls ex_ext_nozip ?ms) \<noteq> []" by simp
  have z: "generateAsync ex_ext_nozip
             (buildZip ex_ext_nozip ''chat-with-alice-tue-jan-02-2024''
                (Blob [''Conversation with Alice\<newline>\<newline>Date: January 2, 2024\<newline>Duration: 1 minute\<newline>\<newline>* 09:05  Alice: hi (** Attached file b.png **)\<newline>\<newline>''] ''text/plain'')
                (fst (getMediaUrls ex_ext_nozip ?ms))) = Inl ''Error: compression''"
    by (simp add: ex_ext_nozip_def)
  have l: "loggedErrors (snd (getMediaUrls ex_ext_nozip ?ms))
             = [''Failed downloading message attachment: Error: expired'']"
    by code_simp
  show ?thesis
    using m l zip_failure_no_artifact [OF r f ne z]
    by simp
qed

end
